theory Spec2Isabelle
  imports Complex_Main "HOL-Library.Sublist"
begin

section \<open>Errors\<close>

text \<open>
  Exceptions of the Python source are values.  A computation that can raise returns
  \<open>error + 'a\<close>, with \<open>Inl\<close> for the exception.
\<close>

datatype error =
    ValueError string
  | AttributeError string
  | IndexError string
  | RuntimeError string

definition and_then :: "error + 'a \<Rightarrow> ('a \<Rightarrow> error + 'b) \<Rightarrow> error + 'b" where
  "and_then m f = (case m of Inl e \<Rightarrow> Inl e | Inr x \<Rightarrow> f x)"

section \<open>Tensors\<close>

text \<open>
  A tensor is its shape, its elements (a function of the index, one number per
  dimension) and the flag \<open>requires_grad\<close> of torch.  Elements are real numbers:
  floating-point rounding is not modelled.  The tensor expressions that
  \<^verbatim>\<open>hifigan.py\<close> writes itself (squeeze, unsqueeze, indexing, arithmetic with
  broadcasting, stack) follow torch's shape rules, and raise where torch raises.
\<close>

record tensor =
  shape :: "nat list"
  elem :: "nat list \<Rightarrow> real"
  requires_grad :: bool

definition zeros_like :: "tensor \<Rightarrow> tensor" where
  "zeros_like t = \<lparr>shape = shape t, elem = (\<lambda>ix. 0), requires_grad = False\<rparr>"

definition detach :: "tensor \<Rightarrow> tensor" where
  "detach t = t\<lparr>requires_grad := False\<rparr>"

text \<open>\<^verbatim>\<open>t.squeeze(d)\<close>: drops dimension \<open>d\<close> when its size is 1, returns \<open>t\<close> as it is
  otherwise; a dimension the tensor does not have is an IndexError.\<close>

definition squeeze :: "nat \<Rightarrow> tensor \<Rightarrow> error + tensor" where
  "squeeze d t =
     (if d < max 1 (length (shape t)) then
        Inr (if d < length (shape t) \<and> shape t ! d = 1
             then t\<lparr>shape := take d (shape t) @ drop (Suc d) (shape t),
                    elem := (\<lambda>ix. elem t (take d ix @ 0 # drop d ix))\<rparr>
             else t)
      else Inl (IndexError ''Dimension out of range''))"

text \<open>\<^verbatim>\<open>t.unsqueeze(d)\<close>: a new dimension of size 1 at position \<open>d\<close>.\<close>

definition unsqueeze :: "nat \<Rightarrow> tensor \<Rightarrow> error + tensor" where
  "unsqueeze d t =
     (if d \<le> length (shape t) then
        Inr (t\<lparr>shape := take d (shape t) @ 1 # drop d (shape t),
               elem := (\<lambda>ix. elem t (take d ix @ drop (Suc d) ix))\<rparr>)
      else Inl (IndexError ''Dimension out of range''))"

text \<open>Indexing one dimension with an integer, the dimensions before it with \<^verbatim>\<open>:\<close>;
  \<^verbatim>\<open>t[:, :, 0]\<close> is \<open>select 2 0 t\<close>.\<close>

definition select :: "nat \<Rightarrow> nat \<Rightarrow> tensor \<Rightarrow> error + tensor" where
  "select d k t =
     (if d < length (shape t) then
        (if k < shape t ! d then
           Inr (t\<lparr>shape := take d (shape t) @ drop (Suc d) (shape t),
                  elem := (\<lambda>ix. elem t (take d ix @ k # drop d ix))\<rparr>)
         else Inl (IndexError ''index out of range''))
      else Inl (IndexError ''too many indices for tensor''))"

text \<open>\<^verbatim>\<open>t[..., k]\<close>: an integer index into the last dimension.\<close>

definition select_last :: "nat \<Rightarrow> tensor \<Rightarrow> error + tensor" where
  "select_last k t =
     (if shape t = [] then Inl (IndexError ''invalid index of a 0-dim tensor'')
      else select (length (shape t) - 1) k t)"

text \<open>\<^verbatim>\<open>t[:, :, None]\<close>: two full slices, then a new dimension at position 2.\<close>

definition index_none2 :: "tensor \<Rightarrow> error + tensor" where
  "index_none2 t =
     (if 2 \<le> length (shape t) then unsqueeze 2 t
      else Inl (IndexError ''too many indices for tensor''))"

text \<open>\<^verbatim>\<open>t[:n]\<close> and \<^verbatim>\<open>t[:, :n]\<close> for \<open>n \<ge> 0\<close>: a slice never raises on a bound that
  is too large, it stops at the end of the dimension.\<close>

definition slice_to :: "nat \<Rightarrow> nat \<Rightarrow> tensor \<Rightarrow> error + tensor" where
  "slice_to d n t =
     (if d < length (shape t) then
        Inr (t\<lparr>shape := (shape t)[d := min n (shape t ! d)]\<rparr>)
      else Inl (IndexError ''too many indices for tensor''))"

text \<open>Broadcasting: shapes are aligned at their last dimension; two sizes are
  compatible when they are equal or one of them is 1.\<close>

fun broadcast_rev :: "nat list \<Rightarrow> nat list \<Rightarrow> nat list option" where
  "broadcast_rev [] ys = Some ys"
| "broadcast_rev (x # xs) [] = Some (x # xs)"
| "broadcast_rev (x # xs) (y # ys) =
     (if x = y \<or> y = 1 then map_option ((#) x) (broadcast_rev xs ys)
      else if x = 1 then map_option ((#) y) (broadcast_rev xs ys)
      else None)"

definition broadcast_shapes :: "nat list \<Rightarrow> nat list \<Rightarrow> nat list option" where
  "broadcast_shapes a b = map_option rev (broadcast_rev (rev a) (rev b))"

definition bindex :: "nat list \<Rightarrow> nat list \<Rightarrow> nat list" where
  "bindex sh ix =
     map2 (\<lambda>n i. if n = 1 then 0 else i) sh (drop (length ix - length sh) ix)"

definition broadcast_op :: "(real \<Rightarrow> real \<Rightarrow> real) \<Rightarrow> tensor \<Rightarrow> tensor \<Rightarrow> error + tensor" where
  "broadcast_op f a b =
     (case broadcast_shapes (shape a) (shape b) of
        None \<Rightarrow> Inl (RuntimeError ''The size of tensor a must match the size of tensor b'')
      | Some sh \<Rightarrow>
          Inr \<lparr>shape = sh,
               elem = (\<lambda>ix. f (elem a (bindex (shape a) ix)) (elem b (bindex (shape b) ix))),
               requires_grad = (requires_grad a \<or> requires_grad b)\<rparr>)"

definition tmap :: "(real \<Rightarrow> real) \<Rightarrow> tensor \<Rightarrow> tensor" where
  "tmap f t = t\<lparr>elem := (\<lambda>ix. f (elem t ix))\<rparr>"

text \<open>\<^verbatim>\<open>torch.clamp(t, lo)\<close>: a lower bound only.\<close>

definition clamp :: "tensor \<Rightarrow> real \<Rightarrow> tensor" where
  "clamp t lo = tmap (max lo) t"

text \<open>\<^verbatim>\<open>torch.stack([a, b], dim=-1)\<close>: the two tensors must have the same shape.\<close>

definition stack_last :: "tensor \<Rightarrow> tensor \<Rightarrow> error + tensor" where
  "stack_last a b =
     (if shape a = shape b then
        Inr \<lparr>shape = shape a @ [2],
             elem = (\<lambda>ix. if last ix = 0 then elem a (butlast ix) else elem b (butlast ix)),
             requires_grad = (requires_grad a \<or> requires_grad b)\<rparr>
      else Inl (RuntimeError ''stack expects each tensor to be equal size''))"

definition atan2 :: "real \<Rightarrow> real \<Rightarrow> real" where
  "atan2 y x =
     (if 0 < x then arctan (y / x)
      else if x < 0 then (if 0 \<le> y then arctan (y / x) + pi else arctan (y / x) - pi)
      else if 0 < y then pi / 2
      else if y < 0 then - pi / 2
      else 0)"

section \<open>Configurations\<close>

text \<open>
  An OmegaConf node: a scalar, a list or a \<^verbatim>\<open>DictConfig\<close> (its entries in order).
  A configuration tree carries the flag \<^verbatim>\<open>struct\<close>, which every node inherits from
  the root: reading a key that a struct-mode \<^verbatim>\<open>DictConfig\<close> does not have raises,
  where a \<^verbatim>\<open>DictConfig\<close> outside struct mode returns \<^verbatim>\<open>None\<close>.  The source opens
  the flag with \<^verbatim>\<open>open_dict\<close> before it adds a key.
\<close>

datatype cfgval =
    CNone
  | CBool bool
  | CInt int
  | CFloat real
  | CStr string
  | CList "cfgval list"
  | CDict "(string \<times> cfgval) list"

type_synonym config = "(string \<times> cfgval) list"

record dictconfig =
  struct :: bool
  content :: config

text \<open>\<^verbatim>\<open>key in cfg\<close>\<close>

definition contains :: "config \<Rightarrow> string \<Rightarrow> bool" where
  "contains c k = (map_of c k \<noteq> None)"

text \<open>\<^verbatim>\<open>isinstance(cfg.key, DictConfig)\<close>, for a key the configuration has.\<close>

definition is_DictConfig :: "config \<Rightarrow> string \<Rightarrow> bool" where
  "is_DictConfig c k = (case map_of c k of Some (CDict d) \<Rightarrow> True | _ \<Rightarrow> False)"

text \<open>\<^verbatim>\<open>cfg.key\<close>\<close>

definition getattr :: "bool \<Rightarrow> config \<Rightarrow> string \<Rightarrow> error + cfgval" where
  "getattr strct c k =
     (case map_of c k of
        Some v \<Rightarrow> Inr v
      | None \<Rightarrow> if strct then Inl (AttributeError (''Key '' @ k @ '' is not in struct''))
                else Inr CNone)"

text \<open>\<^verbatim>\<open>cfg.key = v\<close>: replaces the entry, or adds it at the end; a struct-mode
  \<^verbatim>\<open>DictConfig\<close> refuses a new key.\<close>

fun update :: "string \<Rightarrow> cfgval \<Rightarrow> config \<Rightarrow> config" where
  "update k v [] = [(k, v)]"
| "update k v ((k', v') # c) = (if k' = k then (k, v) # c else (k', v') # update k v c)"

definition setattr :: "bool \<Rightarrow> config \<Rightarrow> string \<Rightarrow> cfgval \<Rightarrow> error + config" where
  "setattr strct c k v =
     (if strct \<and> map_of c k = None
      then Inl (AttributeError (''Key '' @ k @ '' is not in struct''))
      else Inr (update k v c))"

text \<open>Python's truth value of a configuration value.\<close>

fun truthy :: "cfgval \<Rightarrow> bool" where
  "truthy CNone = False"
| "truthy (CBool b) = b"
| "truthy (CInt n) = (n \<noteq> 0)"
| "truthy (CFloat x) = (x \<noteq> 0)"
| "truthy (CStr s) = (s \<noteq> [])"
| "truthy (CList l) = (l \<noteq> [])"
| "truthy (CDict d) = (d \<noteq> [])"

text \<open>\<^verbatim>\<open>instantiate(cfg, **kwargs)\<close> of hydra builds the object that the configuration
  names, the keyword arguments of the call overriding the configuration's.  The
  object is identified by the arguments it was built from.\<close>

definition instantiate :: "config \<Rightarrow> config \<Rightarrow> config" where
  "instantiate c kwargs = fold (\<lambda>(k, v). update k v) kwargs c"

text \<open>The five entries of the model's configuration that the class reads.\<close>

record hifigan_cfg =
  preprocessor :: config
  generator_cfg :: config
  optim :: config
  max_steps :: int
  denoise_strength :: real

section \<open>Optimizers, schedulers, data loaders\<close>

datatype module_params = GeneratorParams | MSDParams | MPDParams

text \<open>\<^verbatim>\<open>instantiate(cfg.optim, params=...)\<close>\<close>

record optimizer =
  optim_args :: config
  params :: "module_params list"

text \<open>\<^verbatim>\<open>CosineAnnealing(optimizer, max_steps=, min_lr=, warmup_steps=)\<close>; an argument
  that the call does not pass is \<open>None\<close>.\<close>

record cosine_annealing =
  sched_optimizer :: optimizer
  sched_max_steps :: int
  sched_min_lr :: real
  sched_warmup_steps :: "int option"

record sch_dict =
  scheduler :: cosine_annealing
  interval :: string

text \<open>\<^verbatim>\<open>DataLoader(dataset, collate_fn=dataset.collate_fn, **dataloader_params)\<close>\<close>

record dataloader =
  dataset :: config
  dataloader_params :: config

section \<open>The environment and the model's state\<close>

text \<open>
  The neural modules, the loss functors and the library transforms are defined
  outside \<^verbatim>\<open>hifigan.py\<close>: they are parameters, and every theorem holds for all
  of them.  A module with trained parameters is a function of the number of steps
  its optimizer has made, since \<^verbatim>\<open>optimizer.step()\<close> changes the parameters in place.
  Scalar losses are real numbers.
\<close>

type_synonym scores = "tensor list"
type_synonym fmaps = "tensor list list"

record env =
  melspec :: "config \<Rightarrow> tensor \<Rightarrow> nat list \<Rightarrow> tensor \<times> nat list"
  generator :: "nat \<Rightarrow> tensor \<Rightarrow> tensor"
  mpd :: "nat \<Rightarrow> tensor \<Rightarrow> tensor \<Rightarrow> scores \<times> scores \<times> fmaps \<times> fmaps"
  msd :: "nat \<Rightarrow> tensor \<Rightarrow> tensor \<Rightarrow> scores \<times> scores \<times> fmaps \<times> fmaps"
  feature_loss :: "fmaps \<Rightarrow> fmaps \<Rightarrow> real"
  discriminator_loss :: "scores \<Rightarrow> scores \<Rightarrow> real \<times> real list \<times> real list"
  generator_loss :: "scores \<Rightarrow> real \<times> real list"
  l1_loss :: "tensor \<Rightarrow> tensor \<Rightarrow> real"
  stft_patch :: "tensor \<Rightarrow> nat \<Rightarrow> nat \<Rightarrow> nat \<Rightarrow> tensor"
  torch_istft :: "tensor \<Rightarrow> nat \<Rightarrow> nat \<Rightarrow> nat \<Rightarrow> tensor"
  is_MelAudioDataset :: "config \<Rightarrow> bool"
  HAVE_WANDB :: bool

datatype optimizer_id = Optim_g | Optim_d

datatype media =
    WandbAudio tensor string cfgval
  | WandbImage tensor string

text \<open>What the model does to the optimizers, the loggers and the experiment
  tracker, in the order in which it does it.\<close>

datatype event =
    ZeroGrad optimizer_id
  | ManualBackward real optimizer_id
  | OptimStep optimizer_id
  | LogDict "(string \<times> real) list"
  | Log string real
  | ExperimentLog "media list" "media list"
  | LoggingInfo string
  | LoggingWarning string
  | LoggingError string

record state =
  cfg :: hifigan_cfg
  audio_to_melspec_precessor :: config
  trg_melspec_fn :: config
  sample_rate :: cfgval
  stft_bias :: "tensor option"
  finetune :: bool
  optim_g :: "optimizer option"
  optim_d :: "optimizer option"
  scheduler_g :: "cosine_annealing option"
  scheduler_d :: "cosine_annealing option"
  train_dl :: "dataloader option"
  validation_dl :: "dataloader option"
  g_steps :: nat
  d_steps :: nat
  optim_g_lr :: real
  global_step :: nat
  logger_is_WandbLogger :: bool
  events :: "event list"

section \<open>HifiGanModel\<close>

subsection \<open>Construction and optimizers\<close>


text \<open>\<^verbatim>\<open>itertools.chain\<close>\<close>

definition chain :: "'a list \<Rightarrow> 'a list \<Rightarrow> 'a list" where
  "chain xs ys = xs @ ys"

definition configure_optimizers ::
  "state \<Rightarrow> (optimizer list \<times> sch_dict list) \<times> state" where
  "configure_optimizers s =
     (let og = \<lparr>optim_args = optim (cfg s), params = [GeneratorParams]\<rparr>;
          od = \<lparr>optim_args = optim (cfg s), params = chain [MSDParams] [MPDParams]\<rparr>;
          ms = max_steps (cfg s);
          warmup_steps = (if finetune s then 0 else \<lceil>0.2 * real_of_int ms\<rceil>);
          sg = \<lparr>sched_optimizer = og, sched_max_steps = ms, sched_min_lr = 1 / 10 ^ 5,
                sched_warmup_steps = Some warmup_steps\<rparr>;
          sch1_dict = \<lparr>scheduler = sg, interval = ''step''\<rparr>;
          sd = \<lparr>sched_optimizer = od, sched_max_steps = ms, sched_min_lr = 1 / 10 ^ 5,
                sched_warmup_steps = None\<rparr>;
          sch2_dict = \<lparr>scheduler = sd, interval = ''step''\<rparr>
      in (([og, od], [sch1_dict, sch2_dict]),
          s\<lparr>optim_g := Some og, optim_d := Some od,
            scheduler_g := Some sg, scheduler_d := Some sd\<rparr>))"

subsection \<open>Forward pass\<close>

text \<open>The declared axes of the input and of the output of \<^verbatim>\<open>forward\<close>, and of the
  output of \<^verbatim>\<open>convert_spectrogram_to_audio\<close>.  The decorator \<^verbatim>\<open>typecheck\<close>, which
  compares tensors with these declarations, is not part of the model.\<close>

definition input_types :: "(string \<times> string list) list" where
  "input_types = [(''spec'', [''B'', ''D'', ''T''])]"

definition output_types :: "(string \<times> string list) list" where
  "output_types = [(''audio'', [''B'', ''S'', ''T''])]"

definition forward :: "env \<Rightarrow> state \<Rightarrow> tensor \<Rightarrow> tensor" where
  "forward E s spec = generator E (g_steps s) spec"


subsection \<open>Bias denoising\<close>

definition stft :: "env \<Rightarrow> tensor \<Rightarrow> error + (tensor \<times> tensor)" where
  "stft E x =
     and_then (squeeze 1 x) (\<lambda>x1.
       let comp = stft_patch E x1 1024 256 1024 in
       and_then (select_last 0 comp) (\<lambda>re.
       and_then (select_last 1 comp) (\<lambda>im.
       and_then (broadcast_op (+) (tmap (\<lambda>v. v ^ 2) re) (tmap (\<lambda>v. v ^ 2) im)) (\<lambda>sq.
       let mags = tmap sqrt sq in
       and_then (broadcast_op atan2 im re) (\<lambda>phase.
       Inr (mags, phase))))))"

definition istft :: "env \<Rightarrow> tensor \<Rightarrow> tensor \<Rightarrow> error + tensor" where
  "istft E mags phase =
     and_then (broadcast_op (*) mags (tmap cos phase)) (\<lambda>re.
     and_then (broadcast_op (*) mags (tmap sin phase)) (\<lambda>im.
     and_then (stack_last re im) (\<lambda>comp.
     Inr (torch_istft E comp 1024 256 1024))))"

text \<open>Lines 257 to 260: the bias tensor, created when \<^verbatim>\<open>self.stft_bias is None\<close>.
  Both assignments to \<^verbatim>\<open>self.stft_bias\<close> are in the state that is returned, also
  when the statement after them raises.\<close>

definition create_bias :: "env \<Rightarrow> tensor \<Rightarrow> state \<Rightarrow> (error + tensor) \<times> state" where
  "create_bias E mel s =
     (case stft_bias s of
        Some b \<Rightarrow> (Inr b, s)
      | None \<Rightarrow>
          (let audio_bias = forward E s (zeros_like mel) in
           case stft E audio_bias of
             Inl e \<Rightarrow> (Inl e, s)
           | Inr (m, ph) \<Rightarrow>
               (case and_then (select 2 0 m) index_none2 of
                  Inl e \<Rightarrow> (Inl e, s\<lparr>stft_bias := Some m\<rparr>)
                | Inr b \<Rightarrow> (Inr b, s\<lparr>stft_bias := Some b\<rparr>))))"

definition bias_denoise :: "env \<Rightarrow> tensor \<Rightarrow> tensor \<Rightarrow> state \<Rightarrow> (error + tensor) \<times> state" where
  "bias_denoise E audio mel s =
     (case create_bias E mel s of
        (Inl e, s1) \<Rightarrow> (Inl e, s1)
      | (Inr bias, s1) \<Rightarrow>
          (and_then (stft E audio) (\<lambda>(audio_mags, audio_phase).
           and_then (broadcast_op (-) audio_mags
                       (tmap (\<lambda>v. denoise_strength (cfg s1) * v) bias)) (\<lambda>audio_mags1.
           let audio_mags2 = clamp audio_mags1 0 in
           and_then (istft E audio_mags2 audio_phase) (\<lambda>x.
           unsqueeze 1 x))),
           s1))"

subsection \<open>Training step\<close>

text \<open>A batch of the training or validation loader: audio and lengths, and in
  fine-tuning mode the mel-spectrograms that a spectrogram generator has computed.\<close>

datatype batch =
    Batch2 tensor "nat list"
  | Batch3 tensor "nat list" tensor

text \<open>The optimizer part of \<^verbatim>\<open>training_step\<close>, lines 135 to 175.  An optimizer
  that \<^verbatim>\<open>configure_optimizers\<close> has not created yet is a missing attribute.\<close>

definition train_discriminator ::
  "env \<Rightarrow> tensor \<Rightarrow> tensor \<Rightarrow> state \<Rightarrow> (error + real \<times> real \<times> real) \<times> state" where
  "train_discriminator E audio audio_pred s =
     (case optim_d s of
        None \<Rightarrow> (Inl (AttributeError ''HifiGanModel object has no attribute optim_d''), s)
      | Some od \<Rightarrow>
          (let s1 = s\<lparr>events := events s @ [ZeroGrad Optim_d]\<rparr>;
               (mpd_score_real, mpd_score_gen, fr1, fg1) =
                  mpd E (d_steps s1) audio (detach audio_pred);
               (loss_disc_mpd, l1, l2) = discriminator_loss E mpd_score_real mpd_score_gen;
               (msd_score_real, msd_score_gen, fr2, fg2) =
                  msd E (d_steps s1) audio (detach audio_pred);
               (loss_disc_msd, l3, l4) = discriminator_loss E msd_score_real msd_score_gen;
               loss_d = loss_disc_msd + loss_disc_mpd;
               s2 = s1\<lparr>events := events s1 @ [ManualBackward loss_d Optim_d]\<rparr>;
               s3 = s2\<lparr>events := events s2 @ [OptimStep Optim_d], d_steps := Suc (d_steps s2)\<rparr>
           in (Inr (loss_disc_mpd, loss_disc_msd, loss_d), s3)))"

definition train_generator ::
  "env \<Rightarrow> tensor \<Rightarrow> tensor \<Rightarrow> tensor \<Rightarrow> tensor \<Rightarrow> state
     \<Rightarrow> (error + real \<times> real \<times> real \<times> real \<times> real \<times> real) \<times> state" where
  "train_generator E audio audio_pred audio_pred_mel audio_trg_mel s =
     (case optim_g s of
        None \<Rightarrow> (Inl (AttributeError ''HifiGanModel object has no attribute optim_g''), s)
      | Some og \<Rightarrow>
          (let s1 = s\<lparr>events := events s @ [ZeroGrad Optim_g]\<rparr>;
               loss_mel = l1_loss E audio_pred_mel audio_trg_mel * 45;
               (sr1, mpd_score_gen, fmap_mpd_real, fmap_mpd_gen) =
                  mpd E (d_steps s1) audio audio_pred;
               (sr2, msd_score_gen, fmap_msd_real, fmap_msd_gen) =
                  msd E (d_steps s1) audio audio_pred;
               loss_fm_mpd = feature_loss E fmap_mpd_real fmap_mpd_gen;
               loss_fm_msd = feature_loss E fmap_msd_real fmap_msd_gen;
               (loss_gen_mpd, l1) = generator_loss E mpd_score_gen;
               (loss_gen_msd, l2) = generator_loss E msd_score_gen;
               loss_g = loss_gen_msd + loss_gen_mpd + loss_fm_msd + loss_fm_mpd + loss_mel;
               s2 = s1\<lparr>events := events s1 @ [ManualBackward loss_g Optim_g]\<rparr>;
               s3 = s2\<lparr>events := events s2 @ [OptimStep Optim_g], g_steps := Suc (g_steps s2)\<rparr>
           in (Inr (loss_mel, loss_fm_mpd, loss_fm_msd, loss_gen_mpd, loss_gen_msd, loss_g),
               s3)))"

definition training_step ::
  "env \<Rightarrow> batch \<Rightarrow> nat \<Rightarrow> nat \<Rightarrow> state \<Rightarrow> (error + unit) \<times> state" where
  "training_step E batch batch_idx optimizer_idx s =
     (case (if finetune s then
              (case batch of
                 Batch3 audio audio_len audio_mel \<Rightarrow> Inr (audio, audio_len, audio_mel)
               | Batch2 audio audio_len \<Rightarrow>
                   Inl (ValueError ''not enough values to unpack (expected 3, got 2)''))
            else
              (case batch of
                 Batch2 audio audio_len \<Rightarrow>
                   Inr (audio, audio_len,
                        fst (melspec E (audio_to_melspec_precessor s) audio audio_len))
               | Batch3 audio audio_len audio_mel \<Rightarrow>
                   Inl (ValueError ''too many values to unpack (expected 2)''))) of
        Inl e \<Rightarrow> (Inl e, s)
      | Inr (audio0, audio_len, audio_mel) \<Rightarrow>
          (let audio_trg_mel = fst (melspec E (trg_melspec_fn s) audio0 audio_len) in
           case unsqueeze 1 audio0 of
             Inl e \<Rightarrow> (Inl e, s)
           | Inr audio \<Rightarrow>
               (let audio_pred = generator E (g_steps s) audio_mel in
                case squeeze 1 audio_pred of
                  Inl e \<Rightarrow> (Inl e, s)
                | Inr audio_pred1 \<Rightarrow>
                    (let audio_pred_mel =
                           fst (melspec E (trg_melspec_fn s) audio_pred1 audio_len) in
                     case train_discriminator E audio audio_pred s of
                       (Inl e, s1) \<Rightarrow> (Inl e, s1)
                     | (Inr (loss_disc_mpd, loss_disc_msd, loss_d), s1) \<Rightarrow>
                         (case train_generator E audio audio_pred audio_pred_mel
                                 audio_trg_mel s1 of
                            (Inl e, s2) \<Rightarrow> (Inl e, s2)
                          | (Inr (loss_mel, loss_fm_mpd, loss_fm_msd, loss_gen_mpd,
                                  loss_gen_msd, loss_g), s2) \<Rightarrow>
                              (let metrics =
                                     [(''g_l1_loss'', loss_mel),
                                      (''g_loss_fm_mpd'', loss_fm_mpd),
                                      (''g_loss_fm_msd'', loss_fm_msd),
                                      (''g_loss_gen_mpd'', loss_gen_mpd),
                                      (''g_loss_gen_msd'', loss_gen_msd),
                                      (''g_loss'', loss_g),
                                      (''d_loss_mpd'', loss_disc_mpd),
                                      (''d_loss_msd'', loss_disc_msd),
                                      (''d_loss'', loss_d),
                                      (''global_step'', real (global_step s2)),
                                      (''lr'', optim_g_lr s2)]
                               in (Inr (),
                                   s2\<lparr>events := events s2 @ [LogDict metrics]\<rparr>)))))))"

subsection \<open>Validation step\<close>

text \<open>\<^verbatim>\<open>xs[i]\<close> on a list or a one-dimensional tensor of lengths\<close>

definition nth_item :: "nat list \<Rightarrow> nat \<Rightarrow> error + nat" where
  "nth_item xs i = (if i < length xs then Inr (xs ! i) else Inl (IndexError ''index out of range''))"

text \<open>\<^verbatim>\<open>t.shape[d]\<close>\<close>

definition shape_at :: "tensor \<Rightarrow> nat \<Rightarrow> error + nat" where
  "shape_at t d =
     (if d < length (shape t) then Inr (shape t ! d)
      else Inl (IndexError ''tuple index out of range''))"

fun digit :: "nat \<Rightarrow> char" where
  "digit n =
     (if n = 0 then CHR ''0'' else if n = 1 then CHR ''1'' else if n = 2 then CHR ''2''
      else if n = 3 then CHR ''3'' else if n = 4 then CHR ''4'' else if n = 5 then CHR ''5''
      else if n = 6 then CHR ''6'' else if n = 7 then CHR ''7'' else if n = 8 then CHR ''8''
      else CHR ''9'')"

fun str :: "nat \<Rightarrow> string" where
  "str n = (if n < 10 then [digit n] else str (n div 10) @ [digit (n mod 10)])"

text \<open>\<^verbatim>\<open>t[i, :n].data\<close>, \<^verbatim>\<open>t[i, 0, :n].data\<close> and \<^verbatim>\<open>t[i, :, :n].data\<close>\<close>

definition clip_of :: "tensor \<Rightarrow> nat \<Rightarrow> nat \<Rightarrow> error + tensor" where
  "clip_of t i n = and_then (and_then (select 0 i t) (slice_to 0 n)) (\<lambda>x. Inr (detach x))"

definition clip0_of :: "tensor \<Rightarrow> nat \<Rightarrow> nat \<Rightarrow> error + tensor" where
  "clip0_of t i n =
     and_then (and_then (and_then (select 0 i t) (select 0 0)) (slice_to 0 n))
       (\<lambda>x. Inr (detach x))"

definition spec_of :: "tensor \<Rightarrow> nat \<Rightarrow> nat \<Rightarrow> error + tensor" where
  "spec_of t i n = and_then (and_then (select 0 i t) (slice_to 1 n)) (\<lambda>x. Inr (detach x))"

text \<open>One round of the loop of lines 201 to 239: the three clips and the three or
  four images of example \<open>i\<close>.\<close>

definition plot_item ::
  "state \<Rightarrow> tensor \<Rightarrow> nat list \<Rightarrow> tensor \<Rightarrow> tensor \<Rightarrow> tensor \<Rightarrow> nat list \<Rightarrow> tensor
     \<Rightarrow> tensor \<Rightarrow> tensor option \<Rightarrow> nat \<Rightarrow> error + (media list \<times> media list)" where
  "plot_item s audio audio_len audio_pred pred_denoised audio_mel audio_mel_len
       audio_pred_mel pred_denoised_mel gt_mel i =
     and_then (nth_item audio_len i) (\<lambda>n.
     and_then (clip_of audio i n) (\<lambda>c1.
     and_then (clip0_of audio_pred i n) (\<lambda>c2.
     and_then (clip_of pred_denoised i n) (\<lambda>c3.
     and_then (nth_item audio_mel_len i) (\<lambda>m.
     and_then (spec_of audio_mel i m) (\<lambda>p1.
     and_then (spec_of audio_pred_mel i m) (\<lambda>p2.
     and_then (spec_of pred_denoised_mel i m) (\<lambda>p3.
     and_then (case gt_mel of
                 None \<Rightarrow> Inr []
               | Some g \<Rightarrow>
                   and_then (spec_of g i m) (\<lambda>p4.
                     Inr [WandbImage p4 (''gt mel '' @ str i)])) (\<lambda>gt.
     Inr ([WandbAudio c1 (''real audio '' @ str i) (sample_rate s),
           WandbAudio c2 (''generated audio '' @ str i) (sample_rate s),
           WandbAudio c3 (''denoised audio '' @ str i) (sample_rate s)],
          [WandbImage p1 (''input mel '' @ str i),
           WandbImage p2 (''output mel '' @ str i),
           WandbImage p3 (''denoised mel '' @ str i)] @ gt))))))))))"

fun plot_loop ::
  "(nat \<Rightarrow> error + (media list \<times> media list)) \<Rightarrow> nat list \<Rightarrow> media list \<Rightarrow> media list
     \<Rightarrow> error + (media list \<times> media list)" where
  "plot_loop f [] clips specs = Inr (clips, specs)"
| "plot_loop f (i # rest) clips specs =
     (case f i of
        Inl e \<Rightarrow> Inl e
      | Inr (c, p) \<Rightarrow> plot_loop f rest (clips @ c) (specs @ p))"

definition validation_step ::
  "env \<Rightarrow> batch \<Rightarrow> nat \<Rightarrow> state \<Rightarrow> (error + unit) \<times> state" where
  "validation_step E batch batch_idx s =
     (case (if finetune s then
              (case batch of
                 Batch3 audio audio_len audio_mel \<Rightarrow>
                   and_then (shape_at audio_mel 1) (\<lambda>d1.
                   and_then (shape_at audio_mel 0) (\<lambda>d0.
                   Inr (audio, audio_len, audio_mel, replicate d0 d1)))
               | Batch2 audio audio_len \<Rightarrow>
                   Inl (ValueError ''not enough values to unpack (expected 3, got 2)''))
            else
              (case batch of
                 Batch2 audio audio_len \<Rightarrow>
                   (let (audio_mel, audio_mel_len) =
                          melspec E (audio_to_melspec_precessor s) audio audio_len
                    in Inr (audio, audio_len, audio_mel, audio_mel_len))
               | Batch3 audio audio_len audio_mel \<Rightarrow>
                   Inl (ValueError ''too many values to unpack (expected 2)''))) of
        Inl e \<Rightarrow> (Inl e, s)
      | Inr (audio, audio_len, audio_mel, audio_mel_len) \<Rightarrow>
          (let audio_pred = forward E s audio_mel in
           case bias_denoise E audio_pred audio_mel s of
             (Inl e, s1) \<Rightarrow> (Inl e, s1)
           | (Inr denoised, s1) \<Rightarrow>
               (case squeeze 1 denoised of
                  Inl e \<Rightarrow> (Inl e, s1)
                | Inr pred_denoised \<Rightarrow>
                    (let pred_denoised_mel =
                           fst (melspec E (audio_to_melspec_precessor s1) pred_denoised
                                  audio_len);
                         gt_mel =
                           (if finetune s1
                            then Some (fst (melspec E (audio_to_melspec_precessor s1) audio
                                              audio_len))
                            else None)
                     in case squeeze 1 audio_pred of
                          Inl e \<Rightarrow> (Inl e, s1)
                        | Inr audio_pred1 \<Rightarrow>
                            (let audio_pred_mel =
                                   fst (melspec E (audio_to_melspec_precessor s1) audio_pred1
                                          audio_len);
                                 loss_mel = l1_loss E audio_mel audio_pred_mel;
                                 s2 = s1\<lparr>events := events s1 @ [Log ''val_loss'' loss_mel]\<rparr>
                             in if batch_idx = 0 \<and> logger_is_WandbLogger s2 \<and> HAVE_WANDB E
                                then
                                  (case and_then (shape_at audio 0) (\<lambda>b.
                                          plot_loop
                                            (plot_item s2 audio audio_len audio_pred
                                               pred_denoised audio_mel audio_mel_len
                                               audio_pred_mel pred_denoised_mel gt_mel)
                                            [0 ..< min 5 b] [] []) of
                                     Inl e \<Rightarrow> (Inl e, s2)
                                   | Inr (clips, specs) \<Rightarrow>
                                       (Inr (),
                                        s2\<lparr>events := events s2 @ [ExperimentLog clips specs]\<rparr>))
                                else (Inr (), s2))))))"

subsection \<open>Data loaders\<close>

text \<open>\<^verbatim>\<open>__setup_dataloader_from_config\<close> returns the data loader or raises; it also
  writes to the log, and it may add \<^verbatim>\<open>shuffle\<close> to the configuration it was given.
  The result is the triple of the three.  The name of the model, which the
  messages print, is left out of them.\<close>

definition setup_dataloader_from_config ::
  "dictconfig \<Rightarrow> bool \<Rightarrow> string \<Rightarrow> (error + dataloader) \<times> dictconfig \<times> event list" where
  "setup_dataloader_from_config c shuffle_should_be name =
     (if \<not> contains (content c) ''dataset'' \<or> \<not> is_DictConfig (content c) ''dataset''
      then (Inl (ValueError (''No dataset for '' @ name)), c, [])
      else if \<not> contains (content c) ''dataloader_params''
              \<or> \<not> is_DictConfig (content c) ''dataloader_params''
      then (Inl (ValueError (''No dataloder_params for '' @ name)), c, [])
      else
        (case (map_of (content c) ''dataset'', map_of (content c) ''dataloader_params'') of
           (Some (CDict ds), Some (CDict dp)) \<Rightarrow>
             (case (if shuffle_should_be then
                      (if \<not> contains dp ''shuffle'' then
                         and_then (setattr False dp ''shuffle'' (CBool True)) (\<lambda>dp1.
                           Inr (dp1,
                                [LoggingWarning
                                   (''Shuffle should be set to True for the '' @ name
                                    @ '' dataloader but was not found in its config. ''
                                    @ ''Manually setting to True'')]))
                       else
                         and_then (getattr (struct c) dp ''shuffle'') (\<lambda>v.
                           Inr (dp,
                                if \<not> truthy v
                                then [LoggingError
                                        (''The '' @ name
                                         @ '' dataloader has shuffle set to False!!!'')]
                                else [])))
                    else
                      and_then (getattr (struct c) dp ''shuffle'') (\<lambda>v.
                        Inr (dp,
                             if \<not> shuffle_should_be \<and> truthy v
                             then [LoggingError
                                     (''The '' @ name
                                      @ '' dataloader has shuffle set to True!!!'')]
                             else []))) of
                Inl e \<Rightarrow> (Inl e, c, [])
              | Inr (dp1, logs) \<Rightarrow>
                  (Inr \<lparr>dataset = instantiate ds [], dataloader_params = dp1\<rparr>,
                   c\<lparr>content := update ''dataloader_params'' (CDict dp1) (content c)\<rparr>,
                   logs))
         | _ \<Rightarrow> (Inl (ValueError (''No dataset for '' @ name)), c, [])))"

definition setup_training_data ::
  "dictconfig \<Rightarrow> state \<Rightarrow> (error + unit) \<times> dictconfig \<times> state" where
  "setup_training_data c s =
     (case setup_dataloader_from_config c True ''train'' of
        (Inl e, c1, logs) \<Rightarrow> (Inl e, c1, s\<lparr>events := events s @ logs\<rparr>)
      | (Inr dl, c1, logs) \<Rightarrow>
          (Inr (), c1, s\<lparr>train_dl := Some dl, events := events s @ logs\<rparr>))"

definition setup_validation_data ::
  "dictconfig \<Rightarrow> state \<Rightarrow> (error + unit) \<times> dictconfig \<times> state" where
  "setup_validation_data c s =
     (case setup_dataloader_from_config c False ''validation'' of
        (Inl e, c1, logs) \<Rightarrow> (Inl e, c1, s\<lparr>events := events s @ logs\<rparr>)
      | (Inr dl, c1, logs) \<Rightarrow>
          (Inr (), c1, s\<lparr>validation_dl := Some dl, events := events s @ logs\<rparr>))"

definition list_available_models :: "unit option" where
  "list_available_models = None"

subsection \<open>Calls\<close>

text \<open>The methods of the class, with their arguments, and the state of the model
  after a call.  An exception leaves the model in the state in which it was
  raised.\<close>

datatype call =
    ConfigureOptimizers
  | Forward tensor
  | ConvertSpectrogramToAudio tensor
  | TrainingStep batch nat nat
  | ValidationStep batch nat
  | BiasDenoise tensor tensor
  | SetupTrainingData dictconfig
  | SetupValidationData dictconfig
  | ListAvailableModels

fun exec :: "env \<Rightarrow> call \<Rightarrow> state \<Rightarrow> state" where
  "exec E ConfigureOptimizers s = snd (configure_optimizers s)"
| "exec E (Forward spec) s = s"
| "exec E (ConvertSpectrogramToAudio spec) s = s"
| "exec E (TrainingStep b i k) s = snd (training_step E b i k s)"
| "exec E (ValidationStep b i) s = snd (validation_step E b i s)"
| "exec E (BiasDenoise audio mel) s = snd (bias_denoise E audio mel s)"
| "exec E (SetupTrainingData c) s = snd (snd (setup_training_data c s))"
| "exec E (SetupValidationData c) s = snd (snd (setup_validation_data c s))"
| "exec E ListAvailableModels s = s"

fun exec_all :: "env \<Rightarrow> call list \<Rightarrow> state \<Rightarrow> state" where
  "exec_all E [] s = s"
| "exec_all E (c # cs) s = exec_all E cs (exec E c s)"

text \<open>Whether a call runs \<^verbatim>\<open>_bias_denoise\<close>: the call itself, and the validation
  step, which denoises its prediction.\<close>

fun calls_bias_denoise :: "call \<Rightarrow> bool" where
  "calls_bias_denoise (BiasDenoise audio mel) = True"
| "calls_bias_denoise (ValidationStep b i) = True"
| "calls_bias_denoise c = False"

section \<open>A small instance\<close>

text \<open>
  An environment on which the definitions can be evaluated.  Its modules have the
  shapes of the real ones (a generator that turns \<open>(B, D, T)\<close> into \<open>(B, 1, 256 T)\<close>,
  a short-time Fourier transform with \<open>n_fft div 2 + 1\<close> frequency bins and one frame
  per hop, an extractor with 80 mel bins) and constant elements.
\<close>

definition const_tensor :: "nat list \<Rightarrow> real \<Rightarrow> tensor" where
  "const_tensor sh v = \<lparr>shape = sh, elem = (\<lambda>ix. v), requires_grad = False\<rparr>"












definition demo_audio :: "nat \<Rightarrow> tensor" where
  "demo_audio b = const_tensor [b, 1024] 0"

text \<open>The configuration of a data loader, with the given \<^verbatim>\<open>dataloader_params\<close>.\<close>

definition demo_ds :: "bool \<Rightarrow> config \<Rightarrow> dictconfig" where
  "demo_ds strct dp =
     \<lparr>struct = strct,
      content = [(''dataset'', CDict [(''_target_'', CStr ''AudioDataset'')]),
                 (''dataloader_params'', CDict dp)]\<rparr>"

section \<open>The terms of the properties\<close>

text \<open>The bias tensor: the magnitudes of the first frame of the short-time Fourier
  transform of what the generator returns for a mel-spectrogram of zeros, with the
  frame dimension kept.\<close>

definition zero_mel_bias :: "env \<Rightarrow> state \<Rightarrow> tensor \<Rightarrow> error + tensor" where
  "zero_mel_bias E s mel =
     and_then (stft E (forward E s (zeros_like mel))) (\<lambda>(m, ph).
     and_then (select 2 0 m) index_none2)"

text \<open>The three losses that a discriminator \<open>D\<close> contributes, for the real audio \<open>y\<close>
  and the generated audio \<open>y_hat\<close>.\<close>

definition disc_loss ::
  "env \<Rightarrow> (tensor \<Rightarrow> tensor \<Rightarrow> scores \<times> scores \<times> fmaps \<times> fmaps) \<Rightarrow> tensor \<Rightarrow> tensor \<Rightarrow> real" where
  "disc_loss E D y y_hat =
     (case D y y_hat of (score_real, score_gen, fr, fg) \<Rightarrow>
        fst (discriminator_loss E score_real score_gen))"

definition adv_loss ::
  "env \<Rightarrow> (tensor \<Rightarrow> tensor \<Rightarrow> scores \<times> scores \<times> fmaps \<times> fmaps) \<Rightarrow> tensor \<Rightarrow> tensor \<Rightarrow> real" where
  "adv_loss E D y y_hat =
     (case D y y_hat of (score_real, score_gen, fr, fg) \<Rightarrow> fst (generator_loss E score_gen))"

definition fm_loss ::
  "env \<Rightarrow> (tensor \<Rightarrow> tensor \<Rightarrow> scores \<times> scores \<times> fmaps \<times> fmaps) \<Rightarrow> tensor \<Rightarrow> tensor \<Rightarrow> real" where
  "fm_loss E D y y_hat =
     (case D y y_hat of (score_real, score_gen, fr, fg) \<Rightarrow> feature_loss E fr fg)"

text \<open>An event that is a call on the given optimizer.\<close>

fun on_optim :: "optimizer_id \<Rightarrow> event \<Rightarrow> bool" where
  "on_optim k (ZeroGrad k') = (k = k')"
| "on_optim k (ManualBackward l k') = (k = k')"
| "on_optim k (OptimStep k') = (k = k')"
| "on_optim k e = False"

text \<open>After the first call on the generator's optimizer there is no call on the
  discriminators' optimizer.\<close>

definition discriminator_before_generator :: "event list \<Rightarrow> bool" where
  "discriminator_before_generator es =
     list_all (\<lambda>e. \<not> on_optim Optim_d e) (dropWhile (\<lambda>e. \<not> on_optim Optim_g e) es)"

text \<open>The input of a step: the audio, its lengths and the mel-spectrogram that the
  generator is given, which is the batch's own in fine-tuning mode and the input
  extractor's otherwise.\<close>

definition step_input :: "env \<Rightarrow> state \<Rightarrow> batch \<Rightarrow> tensor \<Rightarrow> nat list \<Rightarrow> tensor \<Rightarrow> bool" where
  "step_input E s b audio audio_len audio_mel =
     (if finetune s then b = Batch3 audio audio_len audio_mel
      else b = Batch2 audio audio_len \<and>
           audio_mel = fst (melspec E (audio_to_melspec_precessor s) audio audio_len))"

section \<open>Properties\<close>

subsection \<open>Configurations and construction\<close>






subsection \<open>Optimizers and schedulers\<close>

text \<open>
  C7.  \<^verbatim>\<open>configure_optimizers\<close> returns two optimizers, the first over the parameters
  of the generator and the second over the parameters of the multi-scale
  discriminator followed by those of the multi-period discriminator, and two
  schedulers, one on each optimizer, both stepped per training step
  (\<^verbatim>\<open>interval\<close> is \<^verbatim>\<open>step\<close>), with \<^verbatim>\<open>min_lr\<close> \<open>10\<^sup>-\<^sup>5\<close> and \<^verbatim>\<open>max_steps\<close> as the
  configuration gives it.
\<close>

theorem two_optimizers:
  "\<exists>og od sg sd.
     fst (configure_optimizers s) =
       ([og, od], [\<lparr>scheduler = sg, interval = ''step''\<rparr>, \<lparr>scheduler = sd, interval = ''step''\<rparr>]) \<and>
     optim_args og = optim (cfg s) \<and> params og = [GeneratorParams] \<and>
     optim_args od = optim (cfg s) \<and> params od = [MSDParams, MPDParams] \<and>
     sched_optimizer sg = og \<and> sched_optimizer sd = od \<and>
     sched_min_lr sg = 1 / 100000 \<and> sched_min_lr sd = 1 / 100000 \<and>
     sched_max_steps sg = max_steps (cfg s) \<and> sched_max_steps sd = max_steps (cfg s) \<and>
     optim_g (snd (configure_optimizers s)) = Some og \<and>
     optim_d (snd (configure_optimizers s)) = Some od \<and>
     scheduler_g (snd (configure_optimizers s)) = Some sg \<and>
     scheduler_d (snd (configure_optimizers s)) = Some sd"
  by (simp add: configure_optimizers_def Let_def chain_def)

lemma ceiling_fifth: "\<lceil>0.2 * real_of_int n\<rceil> = (n + 4) div 5"
proof -
  have "\<lceil>0.2 * real_of_int n\<rceil> = \<lceil>real_of_int n / real_of_int 5\<rceil>" by simp
  also have "\<dots> = - ((- n) div 5)" by (simp only: ceiling_divide_eq_div)
  also have "\<dots> = (n + 4) div 5" by presburger
  finally show ?thesis .
qed

subsection \<open>Forward pass\<close>



end
